theory Spec2Isabelle
  imports Main "HOL-Library.Word" "HOL-Library.AList" "HOL-Library.Product_Lexorder"
begin

unbundle bit_operations_syntax

section \<open>Davis Vantage Pro driver: data model\<close>

text \<open>
  The driver of \<^verbatim>\<open>weather/stations/davis.py\<close>. Python integers are \<open>int\<close>; a
  \<^verbatim>\<open>bytes\<close> value is a list of 8-bit words; a \<^verbatim>\<open>str\<close> is a \<open>string\<close>. Every
  exception the code can raise is a value of \<open>exn\<close>, and a function that can raise
  returns \<open>exn + 'a\<close> with \<open>Inl\<close> for the exception.
\<close>

type_synonym byte = "8 word"

datatype exn =
    IndexError
  | KeyError string
  | TypeError
  | StructError
  | NoDeviceException string
  | NoNewRecordsException string

subsection \<open>VProCRC\<close>

definition CRC_TABLE :: "int list" where
  "CRC_TABLE = [
     0x0, 0x1021, 0x2042, 0x3063, 0x4084, 0x50a5, 0x60c6, 0x70e7,
     0x8108, 0x9129, 0xa14a, 0xb16b, 0xc18c, 0xd1ad, 0xe1ce, 0xf1ef,
     0x1231, 0x210, 0x3273, 0x2252, 0x52b5, 0x4294, 0x72f7, 0x62d6,
     0x9339, 0x8318, 0xb37b, 0xa35a, 0xd3bd, 0xc39c, 0xf3ff, 0xe3de,
     0x2462, 0x3443, 0x420, 0x1401, 0x64e6, 0x74c7, 0x44a4, 0x5485,
     0xa56a, 0xb54b, 0x8528, 0x9509, 0xe5ee, 0xf5cf, 0xc5ac, 0xd58d,
     0x3653, 0x2672, 0x1611, 0x630, 0x76d7, 0x66f6, 0x5695, 0x46b4,
     0xb75b, 0xa77a, 0x9719, 0x8738, 0xf7df, 0xe7fe, 0xd79d, 0xc7bc,
     0x48c4, 0x58e5, 0x6886, 0x78a7, 0x840, 0x1861, 0x2802, 0x3823,
     0xc9cc, 0xd9ed, 0xe98e, 0xf9af, 0x8948, 0x9969, 0xa90a, 0xb92b,
     0x5af5, 0x4ad4, 0x7ab7, 0x6a96, 0x1a71, 0xa50, 0x3a33, 0x2a12,
     0xdbfd, 0xcbdc, 0xfbbf, 0xeb9e, 0x9b79, 0x8b58, 0xbb3b, 0xab1a,
     0x6ca6, 0x7c87, 0x4ce4, 0x5cc5, 0x2c22, 0x3c03, 0xc60, 0x1c41,
     0xedae, 0xfd8f, 0xcdec, 0xddcd, 0xad2a, 0xbd0b, 0x8d68, 0x9d49,
     0x7e97, 0x6eb6, 0x5ed5, 0x4ef4, 0x3e13, 0x2e32, 0x1e51, 0xe70,
     0xff9f, 0xefbe, 0xdfdd, 0xcffc, 0xbf1b, 0xaf3a, 0x9f59, 0x8f78,
     0x9188, 0x81a9, 0xb1ca, 0xa1eb, 0xd10c, 0xc12d, 0xf14e, 0xe16f,
     0x1080, 0xa1, 0x30c2, 0x20e3, 0x5004, 0x4025, 0x7046, 0x6067,
     0x83b9, 0x9398, 0xa3fb, 0xb3da, 0xc33d, 0xd31c, 0xe37f, 0xf35e,
     0x2b1, 0x1290, 0x22f3, 0x32d2, 0x4235, 0x5214, 0x6277, 0x7256,
     0xb5ea, 0xa5cb, 0x95a8, 0x8589, 0xf56e, 0xe54f, 0xd52c, 0xc50d,
     0x34e2, 0x24c3, 0x14a0, 0x481, 0x7466, 0x6447, 0x5424, 0x4405,
     0xa7db, 0xb7fa, 0x8799, 0x97b8, 0xe75f, 0xf77e, 0xc71d, 0xd73c,
     0x26d3, 0x36f2, 0x691, 0x16b0, 0x6657, 0x7676, 0x4615, 0x5634,
     0xd94c, 0xc96d, 0xf90e, 0xe92f, 0x99c8, 0x89e9, 0xb98a, 0xa9ab,
     0x5844, 0x4865, 0x7806, 0x6827, 0x18c0, 0x8e1, 0x3882, 0x28a3,
     0xcb7d, 0xdb5c, 0xeb3f, 0xfb1e, 0x8bf9, 0x9bd8, 0xabbb, 0xbb9a,
     0x4a75, 0x5a54, 0x6a37, 0x7a16, 0xaf1, 0x1ad0, 0x2ab3, 0x3a92,
     0xfd2e, 0xed0f, 0xdd6c, 0xcd4d, 0xbdaa, 0xad8b, 0x9de8, 0x8dc9,
     0x7c26, 0x6c07, 0x5c64, 0x4c45, 0x3ca2, 0x2c83, 0x1ce0, 0xcc1,
     0xef1f, 0xff3e, 0xcf5d, 0xdf7c, 0xaf9b, 0xbfba, 0x8fd9, 0x9ff8,
     0x6e17, 0x7e36, 0x4e55, 0x5e74, 0x2e93, 0x3eb2, 0xed1, 0x1ef0
   ]"

text \<open>Indexing a Python tuple: a negative index counts from the end, an index out of
  range raises IndexError.\<close>

definition tuple_getitem :: "'a list \<Rightarrow> int \<Rightarrow> exn + 'a" where
  "tuple_getitem xs i =
     (if 0 \<le> i \<and> i < int (length xs) then Inr (xs ! nat i)
      else if - int (length xs) \<le> i \<and> i < 0 then Inr (xs ! nat (i + int (length xs)))
      else Inl IndexError)"

text \<open>One round of the loop of \<^verbatim>\<open>VProCRC.get\<close>:
  \<^verbatim>\<open>crc = (VProCRC.CRC_TABLE[(crc >> 8) ^ byte] ^ ((crc & 0xFF) << 8))\<close>.\<close>

definition crc_round :: "int \<Rightarrow> byte \<Rightarrow> exn + int" where
  "crc_round crc b =
     (case tuple_getitem CRC_TABLE (drop_bit 8 crc XOR uint b) of
        Inl e \<Rightarrow> Inl e
      | Inr t \<Rightarrow> Inr (t XOR push_bit 8 (crc AND 0xFF)))"

fun crc_loop :: "int \<Rightarrow> byte list \<Rightarrow> exn + int" where
  "crc_loop crc [] = Inr crc"
| "crc_loop crc (b # bs) =
     (case crc_round crc b of Inl e \<Rightarrow> Inl e | Inr crc' \<Rightarrow> crc_loop crc' bs)"

definition VProCRC_get :: "byte list \<Rightarrow> exn + int" where
  "VProCRC_get data = crc_loop 0 data"

text \<open>\<^verbatim>\<open>VProCRC.verify\<close>: an empty input is invalid; otherwise \<^verbatim>\<open>not crc\<close>.\<close>

definition VProCRC_verify :: "byte list \<Rightarrow> exn + bool" where
  "VProCRC_verify data =
     (if length data = 0 then Inr False
      else case VProCRC_get data of
             Inl e \<Rightarrow> Inl e
           | Inr crc \<Rightarrow> Inr (\<not> (crc \<noteq> 0)))"

subsection \<open>Watermark encoders and the archive date/time decoder\<close>

record datetime =
  year :: int
  month :: int
  day :: int
  hour :: int
  minute :: int

definition calcDateStamp :: "datetime \<Rightarrow> int" where
  "calcDateStamp date = day date + month date * 32 + (year date - 2000) * 512"

definition calcTimeStamp :: "datetime \<Rightarrow> int" where
  "calcTimeStamp date = 100 * hour date + minute date"

text \<open>\<^verbatim>\<open>_ArchiveStruct._unpack_date_time\<close>; \<^verbatim>\<open>divmod\<close> is floor division and
  remainder, as \<open>div\<close> and \<open>mod\<close> on \<open>int\<close> are.\<close>

definition unpack_date_time :: "int \<Rightarrow> int \<Rightarrow> int \<times> int \<times> int \<times> int \<times> int" where
  "unpack_date_time date tm =
     (let day = date AND 0x1f;
          month = drop_bit 5 date AND 0x0f;
          year = (drop_bit 9 date AND 0x7f) + 2000;
          hour = tm div 100;
          mn = tm mod 100
      in (year, month, day, hour, mn))"

section \<open>Transport and session\<close>

text \<open>
  The device (\<^verbatim>\<open>self.port\<close>) is outside the driver. Its behaviour is a parameter
  \<open>dev\<close>: the outcome of the k-th read of the session, either some bytes or no reply
  at all. The driver is deterministic, so every device, however it reacts to what was
  written, shows up as one such sequence. A read under \<^verbatim>\<open>asyncio.wait_for\<close> that gets
  no reply raises \<^verbatim>\<open>TimeoutError\<close>; a read with no timeout that gets no reply never
  returns, which is the value \<open>None\<close> of the computation.

  A value handed to \<^verbatim>\<open>port.write\<close> or compared with a reply is \<^verbatim>\<open>bytes\<close> or
  \<^verbatim>\<open>str\<close>: \<^verbatim>\<open>WAKE_ACK\<close> and \<^verbatim>\<open>ACK\<close> are encoded, \<^verbatim>\<open>ESC\<close> and \<^verbatim>\<open>OK\<close> are not,
  and in Python 3 a \<^verbatim>\<open>bytes\<close> value never equals a \<^verbatim>\<open>str\<close>.
\<close>

datatype payload = Bytes "byte list" | Str string

datatype reply = NoReply | Data "byte list"

type_synonym device = "nat \<Rightarrow> reply"

text \<open>What the session did on the port, in order: a write, a read request (size, and
  the timeout in milliseconds when there is one), a \<^verbatim>\<open>time.sleep\<close> (seconds).\<close>

datatype event = Wrote payload | ReadReq nat "nat option" | Slept nat

record session =
  nreads :: nat
  trace :: "event list"
  archive_time :: "int \<times> int"
  ARCHIVE_REV_B :: "bool option"

text \<open>A coroutine of the driver: it may never return (\<open>None\<close>), raise, or return a
  value, and it leaves a session state behind in the last two cases.\<close>

type_synonym 'a io = "device \<Rightarrow> session \<Rightarrow> ((exn + 'a) \<times> session) option"

definition io_ret :: "'a \<Rightarrow> 'a io" where
  "io_ret x dev s = Some (Inr x, s)"

definition io_raise :: "exn \<Rightarrow> 'a io" where
  "io_raise e dev s = Some (Inl e, s)"

definition io_lift :: "exn + 'a \<Rightarrow> 'a io" where
  "io_lift r dev s = Some (r, s)"

definition io_bind :: "'a io \<Rightarrow> ('a \<Rightarrow> 'b io) \<Rightarrow> 'b io" where
  "io_bind m f dev s =
     (case m dev s of
        None \<Rightarrow> None
      | Some (Inl e, s') \<Rightarrow> Some (Inl e, s')
      | Some (Inr x, s') \<Rightarrow> f x dev s')"

definition exn_bind :: "exn + 'a \<Rightarrow> ('a \<Rightarrow> exn + 'b) \<Rightarrow> exn + 'b" where
  "exn_bind r f = (case r of Inl e \<Rightarrow> Inl e | Inr x \<Rightarrow> f x)"

definition port_write :: "payload \<Rightarrow> session \<Rightarrow> session" where
  "port_write p s = s\<lparr>trace := trace s @ [Wrote p]\<rparr>"

definition io_write :: "payload \<Rightarrow> unit io" where
  "io_write p dev s = Some (Inr (), port_write p s)"

text \<open>\<^verbatim>\<open>await asyncio.wait_for(self.port.read(n), timeout=t)\<close>: \<open>None\<close> is the
  \<^verbatim>\<open>TimeoutError\<close> the callers catch.\<close>

definition wait_for_read :: "nat \<Rightarrow> nat \<Rightarrow> device \<Rightarrow> session \<Rightarrow> byte list option \<times> session" where
  "wait_for_read n ms dev s =
     (case dev (nreads s) of NoReply \<Rightarrow> None | Data b \<Rightarrow> Some b,
      s\<lparr>nreads := nreads s + 1, trace := trace s @ [ReadReq n (Some ms)]\<rparr>)"

text \<open>\<^verbatim>\<open>await self.port.read(n)\<close>, with no timeout.\<close>

definition port_read :: "nat \<Rightarrow> byte list io" where
  "port_read n dev s =
     (case dev (nreads s) of
        NoReply \<Rightarrow> None
      | Data b \<Rightarrow> Some (Inr b, s\<lparr>nreads := nreads s + 1, trace := trace s @ [ReadReq n None]\<rparr>))"

definition time_sleep :: "nat \<Rightarrow> session \<Rightarrow> session" where
  "time_sleep n s = s\<lparr>trace := trace s @ [Slept n]\<rparr>"

definition encode :: "string \<Rightarrow> byte list" where
  "encode cs = map of_char cs"

definition WAKE_ACK :: payload where
  "WAKE_ACK = Bytes (encode [CHR 0x0A, CHR 0x0D])"

definition ACK :: payload where
  "ACK = Bytes (encode [CHR 0x06])"

definition ESC :: payload where
  "ESC = Str [CHR 0x1B]"

definition OK :: payload where
  "OK = Str [CHR 0x0A, CHR 0x0D, CHR ''O'', CHR ''K'', CHR 0x0A, CHR 0x0D]"

fun py_len :: "payload \<Rightarrow> nat" where
  "py_len (Bytes b) = length b"
| "py_len (Str cs) = length cs"

subsection \<open>Text formatting\<close>

text \<open>\<^verbatim>\<open>str(n)\<close> and \<^verbatim>\<open>"%s" % n\<close> of an integer: its decimal digits, with a minus
  sign when negative.\<close>

fun digits :: "nat \<Rightarrow> string" where
  "digits n = (if n < 10 then [char_of (48 + n)] else digits (n div 10) @ [char_of (48 + n mod 10)])"

definition str_int :: "int \<Rightarrow> string" where
  "str_int i = (if i < 0 then CHR ''-'' # digits (nat (- i)) else digits (nat i))"

text \<open>\<^verbatim>\<open>"%02d" % n\<close>: at least two characters, a zero in front of a single digit.\<close>

definition fmt_02d :: "int \<Rightarrow> string" where
  "fmt_02d i = (if 0 \<le> i \<and> i < 10 then CHR ''0'' # str_int i else str_int i)"

fun join :: "string \<Rightarrow> string list \<Rightarrow> string" where
  "join sep [] = []"
| "join sep [x] = x"
| "join sep (x # y # ys) = x @ sep @ join sep (y # ys)"

subsection \<open>Handshake: wake-up and command\<close>

text \<open>
  \<^verbatim>\<open>VantagePro._wakeup\<close>. The loop runs \<^verbatim>\<open>while not awake and i < 3\<close>; the counter
  moves only in the \<^verbatim>\<open>except TimeoutError\<close> branch. Nothing bounds the number of
  rounds, so the loop is a partial function.
\<close>

partial_function (option) wakeup_loop :: "bool \<Rightarrow> nat \<Rightarrow> device \<Rightarrow> session \<Rightarrow> (bool \<times> session) option" where
  "wakeup_loop awake i dev s =
     (if \<not> awake \<and> i < 3 then
        (case wait_for_read (py_len WAKE_ACK) 1200 dev (port_write (Bytes (encode [CHR 0x0A])) s) of
           (None, s') \<Rightarrow> wakeup_loop awake (i + 1) dev s'
         | (Some ack, s') \<Rightarrow>
             if Bytes ack = WAKE_ACK then wakeup_loop True i dev s'
             else wakeup_loop awake i dev s')
      else Some (awake, s))"

declare wakeup_loop.simps [code]

definition wakeup :: "unit io" where
  "wakeup dev s =
     (case wakeup_loop False 0 dev s of
        None \<Rightarrow> None
      | Some (awake, s') \<Rightarrow>
          if awake then Some (Inr (), s')
          else Some (Inl (NoDeviceException ''Can not access weather station''), s'))"

text \<open>The text of a command: \<^verbatim>\<open>"%s %s" % (cmd, ' '.join(str(a) for a in args))\<close> when
  there are arguments; each round sends \<^verbatim>\<open>f"{cmd} \n".encode()\<close>.\<close>

definition cmd_text :: "string \<Rightarrow> int list \<Rightarrow> string" where
  "cmd_text c args = (if args \<noteq> [] then c @ '' '' @ join '' '' (map str_int args) else c)"

definition cmd_line :: "string \<Rightarrow> payload" where
  "cmd_line c = Bytes (encode (c @ [CHR '' '', CHR 0x0A]))"

text \<open>The \<^verbatim>\<open>for i in range(3)\<close> loop of \<^verbatim>\<open>VantagePro._cmd\<close>, by the number of rounds
  left. Falling off the end of the loop returns \<^verbatim>\<open>None\<close>, as a matching reply does.\<close>

fun cmd_rounds :: "nat \<Rightarrow> string \<Rightarrow> bool \<Rightarrow> unit io" where
  "cmd_rounds 0 c ok dev s = Some (Inr (), s)"
| "cmd_rounds (Suc k) c ok dev s =
     (let s1 = port_write (cmd_line c) s in
      if ok then
        (case wait_for_read (py_len OK) 5000 dev s1 of
           (None, s2) \<Rightarrow> Some (Inl (NoDeviceException ''Lost connection''), s2)
         | (Some ack, s2) \<Rightarrow>
             if Bytes ack = OK then Some (Inr (), s2) else cmd_rounds k c ok dev s2)
      else
        (case wait_for_read (py_len ACK) 1200 dev s1 of
           (None, s2) \<Rightarrow> Some (Inl (NoDeviceException ''Lost connection''), s2)
         | (Some ack, s2) \<Rightarrow>
             if Bytes ack = ACK then Some (Inr (), s2) else cmd_rounds k c ok dev s2))"

definition cmd :: "string \<Rightarrow> int list \<Rightarrow> bool \<Rightarrow> unit io" where
  "cmd c args ok = io_bind wakeup (\<lambda>_. cmd_rounds 3 (cmd_text c args) ok)"

section \<open>Record codec\<close>

subsection \<open>Decoded values and records\<close>

text \<open>
  A decoded field is an integer, a float, a \<^verbatim>\<open>bytes\<close> value, a tuple of integers or a
  string. Floats are kept symbolic: \<open>TrueDiv v d\<close> is the float that Python's
  \<^verbatim>\<open>v / d\<close> gives for a float divisor \<open>d\<close>, so no rounding is computed and none
  is assumed. A decoded record is a \<^verbatim>\<open>dict\<close>: an association list in insertion order,
  where storing under a key that is there replaces its value in place.
\<close>

datatype pyval =
    IntV int
  | TrueDiv pyval int
  | BytesV "byte list"
  | TupleV "int list"
  | StrV string

type_synonym pydict = "(string \<times> pyval) list"

definition getitem :: "pydict \<Rightarrow> string \<Rightarrow> exn + pyval" where
  "getitem d k = (case map_of d k of None \<Rightarrow> Inl (KeyError k) | Some v \<Rightarrow> Inr v)"

definition setitem :: "string \<Rightarrow> pyval \<Rightarrow> pydict \<Rightarrow> pydict" where
  "setitem k v d = AList.update k v d"

text \<open>\<^verbatim>\<open>d.update(pairs)\<close>; \<^verbatim>\<open>dict(pairs)\<close> is the update of the empty dict.\<close>

definition dict_update :: "(string \<times> pyval) list \<Rightarrow> pydict \<Rightarrow> pydict" where
  "dict_update kvs d = fold (\<lambda>(k, v). setitem k v) kvs d"

subsection \<open>Fixed layouts\<close>

text \<open>The format characters the layouts use: \<^verbatim>\<open>H\<close>, \<^verbatim>\<open>B\<close>, \<^verbatim>\<open>ns\<close> and \<^verbatim>\<open>nB\<close>.
  The byte order \<^verbatim>\<open>=\<close> is the machine's, with standard sizes and no padding; the
  model takes a little-endian machine, which is also the console's order.\<close>

datatype fmt = U16 | U8 | Chars nat | U8s nat

fun fmt_size :: "fmt \<Rightarrow> nat" where
  "fmt_size U16 = 2"
| "fmt_size U8 = 1"
| "fmt_size (Chars n) = n"
| "fmt_size (U8s n) = n"

definition calcsize :: "fmt list \<Rightarrow> nat" where
  "calcsize fs = sum_list (map fmt_size fs)"

fun le_int :: "byte list \<Rightarrow> int" where
  "le_int [] = 0"
| "le_int (b # bs) = uint b + 256 * le_int bs"

fun unpack_values :: "fmt list \<Rightarrow> byte list \<Rightarrow> pyval list" where
  "unpack_values [] bs = []"
| "unpack_values (U16 # fs) bs = IntV (le_int (take 2 bs)) # unpack_values fs (drop 2 bs)"
| "unpack_values (U8 # fs) bs = IntV (le_int (take 1 bs)) # unpack_values fs (drop 1 bs)"
| "unpack_values (Chars n # fs) bs = BytesV (take n bs) # unpack_values fs (drop n bs)"
| "unpack_values (U8s n # fs) bs =
     map (\<lambda>b. IntV (uint b)) (take n bs) @ unpack_values fs (drop n bs)"

text \<open>
  Modelled from the spec: the \<^verbatim>\<open>Struct\<close> base class (\<^verbatim>\<open>weather/stations/_struct.py\<close>)
  is not among the sources. By the spec a layout is an ordered sequence of named
  fields of fixed width, decoding has two stages (unpack the raw layout into a mapping
  from field name to value, then the layout's post-unpack transform), and decoding a
  window shorter than the layout fails with a decode error. The names are paired with
  the unpacked values in order (\<^verbatim>\<open>dict(zip(fields, data))\<close>); \<^verbatim>\<open>unpack\<close> wants a
  buffer of exactly the layout's size, \<^verbatim>\<open>unpack_from\<close> at least that many bytes from
  the offset on, a negative offset counting from the end.
\<close>

record struct =
  names :: "string list"
  formats :: "fmt list"
  post_unpack :: "pydict \<Rightarrow> exn + pydict"

definition Struct :: "(string \<times> fmt) list \<Rightarrow> (pydict \<Rightarrow> exn + pydict) \<Rightarrow> struct" where
  "Struct fmt post = \<lparr>names = map fst fmt, formats = map snd fmt, post_unpack = post\<rparr>"

definition struct_size :: "struct \<Rightarrow> nat" where
  "struct_size st = calcsize (formats st)"

definition Struct_unpack :: "struct \<Rightarrow> byte list \<Rightarrow> exn + pydict" where
  "Struct_unpack st buf =
     (if length buf \<noteq> struct_size st then Inl StructError
      else post_unpack st (dict_update (zip (names st) (unpack_values (formats st) buf)) []))"

definition Struct_unpack_from :: "struct \<Rightarrow> byte list \<Rightarrow> int \<Rightarrow> exn + pydict" where
  "Struct_unpack_from st buf offset =
     (let n = int (length buf);
          off = (if offset < 0 then offset + n else offset)
      in if off < 0 \<or> n - off < int (struct_size st) then Inl StructError
         else post_unpack st
                (dict_update (zip (names st) (unpack_values (formats st) (drop (nat off) buf))) []))"

text \<open>The base class's \<^verbatim>\<open>_post_unpack\<close> returns the items as they are.\<close>

definition Struct_post_unpack :: "pydict \<Rightarrow> exn + pydict" where
  "Struct_post_unpack items = Inr items"

subsection \<open>Post-unpack statements\<close>

text \<open>A post-unpack transform is a sequence of statements on the items, each of which
  may raise.\<close>

fun run_steps :: "(pydict \<Rightarrow> exn + pydict) list \<Rightarrow> pydict \<Rightarrow> exn + pydict" where
  "run_steps [] items = Inr items"
| "run_steps (f # fs) items = exn_bind (f items) (run_steps fs)"

fun is_number :: "pyval \<Rightarrow> bool" where
  "is_number (IntV n) = True"
| "is_number (TrueDiv v d) = True"
| "is_number v = False"

text \<open>\<^verbatim>\<open>items[k] = items[k] / d\<close> for a float literal \<open>d\<close>.\<close>

definition truediv :: "string \<Rightarrow> int \<Rightarrow> pydict \<Rightarrow> exn + pydict" where
  "truediv k d items =
     exn_bind (getitem items k)
       (\<lambda>v. if is_number v then Inr (setitem k (TrueDiv v d) items) else Inl TypeError)"

text \<open>\<^verbatim>\<open>struct.unpack('nB', v)\<close>: a \<^verbatim>\<open>bytes\<close> value of exactly \<open>n\<close> bytes, as a tuple.\<close>

definition unpack_nB :: "nat \<Rightarrow> pyval \<Rightarrow> exn + int list" where
  "unpack_nB n v =
     (case v of
        BytesV bs \<Rightarrow> if length bs = n then Inr (map uint bs) else Inl StructError
      | _ \<Rightarrow> Inl TypeError)"

text \<open>\<^verbatim>\<open>items[k] = struct.unpack('nB', items[k])\<close>, and the same with 90 taken off
  every value: \<^verbatim>\<open>tuple(t - 90 for t in struct.unpack('nB', items[k]))\<close>.\<close>

definition tuple_nB :: "string \<Rightarrow> nat \<Rightarrow> pydict \<Rightarrow> exn + pydict" where
  "tuple_nB k n items =
     exn_bind (getitem items k)
       (\<lambda>v. exn_bind (unpack_nB n v) (\<lambda>ts. Inr (setitem k (TupleV ts) items)))"

definition tuple_nB_minus_90 :: "string \<Rightarrow> nat \<Rightarrow> pydict \<Rightarrow> exn + pydict" where
  "tuple_nB_minus_90 k n items =
     exn_bind (getitem items k)
       (\<lambda>v. exn_bind (unpack_nB n v) (\<lambda>ts. Inr (setitem k (TupleV (map (\<lambda>t. t - 90) ts)) items)))"

subsection \<open>LoopStruct\<close>

definition LoopStruct_FMT :: "(string \<times> fmt) list" where
  "LoopStruct_FMT = [
     (''LOO'', Chars 3), (''BarTrend'', U8), (''PacketType'', U8),
     (''NextRec'', U16), (''Pressure'', U16), (''TempIn'', U16),
     (''HumIn'', U8), (''TempOut'', U16), (''WindSpeed'', U8),
     (''WindSpeed10Min'', U8), (''WindDir'', U16), (''ExtraTemps'', Chars 7),
     (''SoilTemps'', Chars 4), (''LeafTemps'', Chars 4), (''HumOut'', U8),
     (''HumExtra'', Chars 7), (''RainRate'', U16), (''UV'', U8),
     (''SolarRad'', U16), (''RainStorm'', U16), (''StormStartDate'', U16),
     (''RainDay'', U16), (''RainMonth'', U16), (''RainYear'', U16),
     (''ETDay'', U16), (''ETMonth'', U16), (''ETYear'', U16),
     (''SoilMoist'', Chars 4), (''LeafWetness'', Chars 4), (''AlarmIn'', U8),
     (''AlarmRain'', U8), (''AlarmOut'', Chars 2), (''AlarmExTempHum'', Chars 8),
     (''AlarmSoilLeaf'', Chars 4), (''BatteryStatus'', U8), (''BatteryVolts'', U16),
     (''ForecastIcon'', U8), (''ForecastRuleNo'', U8), (''SunRise'', U16),
     (''SunSet'', U16), (''EOL'', Chars 2), (''CRC'', U16)
   ]"

text \<open>\<^verbatim>\<open>"%02d:%02d" % divmod(val, 100)\<close>.\<close>

definition unpack_time :: "int \<Rightarrow> string" where
  "unpack_time val = fmt_02d (val div 100) @ '':'' @ fmt_02d (val mod 100)"

text \<open>\<^verbatim>\<open>"%s-%s-%s" % (year, month, day)\<close>, with the year in the low 7 bits, the day in
  the next 5 and the month in the top 4.\<close>

definition unpack_storm_date :: "int \<Rightarrow> string" where
  "unpack_storm_date date =
     (let year = (date AND 0x7f) + 2000;
          day = drop_bit 7 date AND 0x01f;
          month = drop_bit 12 date AND 0x0f
      in str_int year @ ''-'' @ str_int month @ ''-'' @ str_int day)"

text \<open>\<^verbatim>\<open>items[k] = f(items[k])\<close> for a function of an integer that gives a string.\<close>

definition format_item :: "string \<Rightarrow> (int \<Rightarrow> string) \<Rightarrow> pydict \<Rightarrow> exn + pydict" where
  "format_item k f items =
     exn_bind (getitem items k)
       (\<lambda>v. case v of IntV n \<Rightarrow> Inr (setitem k (StrV (f n)) items) | _ \<Rightarrow> Inl TypeError)"

text \<open>\<^verbatim>\<open>items['BatteryVolts'] = items['BatteryVolts'] * 300 / 512.0 / 100.0\<close>.\<close>

definition battery_volts :: "pydict \<Rightarrow> exn + pydict" where
  "battery_volts items =
     exn_bind (getitem items ''BatteryVolts'')
       (\<lambda>v. case v of
               IntV n \<Rightarrow> Inr (setitem ''BatteryVolts'' (TrueDiv (TrueDiv (IntV (n * 300)) 512) 100) items)
             | _ \<Rightarrow> Inl TypeError)"

definition LoopStruct_post_unpack :: "pydict \<Rightarrow> exn + pydict" where
  "LoopStruct_post_unpack =
     run_steps [
       truediv ''Pressure'' 1000,
       truediv ''TempIn'' 10,
       truediv ''TempOut'' 10,
       truediv ''RainRate'' 100,
       truediv ''RainStorm'' 100,
       format_item ''StormStartDate'' unpack_storm_date,
       truediv ''RainDay'' 100,
       truediv ''RainMonth'' 100,
       truediv ''RainYear'' 100,
       truediv ''ETDay'' 1000,
       truediv ''ETMonth'' 100,
       truediv ''ETYear'' 100,
       tuple_nB ''SoilMoist'' 4,
       tuple_nB ''LeafWetness'' 4,
       battery_volts,
       format_item ''SunRise'' unpack_time,
       format_item ''SunSet'' unpack_time
     ]"

definition LoopStruct :: struct where
  "LoopStruct = Struct LoopStruct_FMT LoopStruct_post_unpack"

subsection \<open>Archive records, revisions A and B\<close>

text \<open>\<^verbatim>\<open>_ArchiveStruct._post_unpack\<close>, shared by both revisions.\<close>

definition ArchiveStruct_post_unpack :: "pydict \<Rightarrow> exn + pydict" where
  "ArchiveStruct_post_unpack items =
     exn_bind (getitem items ''DateStamp'') (\<lambda>date.
     exn_bind (getitem items ''TimeStamp'') (\<lambda>tm.
       case (date, tm) of
         (IntV d, IntV t) \<Rightarrow>
           (case unpack_date_time d t of
              (y, m, dd, h, mi) \<Rightarrow>
                run_steps [
                  truediv ''TempOut'' 10,
                  truediv ''TempOutHi'' 10,
                  truediv ''TempOutLow'' 10,
                  truediv ''Barometer'' 1000,
                  truediv ''TempIn'' 10,
                  truediv ''UV'' 10,
                  truediv ''UVHi'' 10,
                  truediv ''ETHour'' 1000,
                  tuple_nB_minus_90 ''SoilTemps'' 4,
                  tuple_nB ''ExtraHum'' 2,
                  tuple_nB ''SoilMoist'' 4
                ]
                (dict_update
                   (zip [''Year'', ''Month'', ''Day'', ''Hour'', ''Min'']
                        [IntV y, IntV m, IntV dd, IntV h, IntV mi])
                   items))
       | _ \<Rightarrow> Inl TypeError))"

definition ArchiveAStruct_FMT :: "(string \<times> fmt) list" where
  "ArchiveAStruct_FMT = [
     (''DateStamp'', U16), (''TimeStamp'', U16), (''TempOut'', U16),
     (''TempOutHi'', U16), (''TempOutLow'', U16), (''RainRate'', U16),
     (''RainRateHi'', U16), (''Pressure'', U16), (''SolarRad'', U16),
     (''WindSamps'', U16), (''TempIn'', U16), (''HumIn'', U8),
     (''HumOut'', U8), (''WindAvg'', U8), (''WindHi'', U8),
     (''WindHiDir'', U8), (''WindAvgDir'', U8), (''UV'', U8),
     (''ETHour'', U8), (''unused'', U8), (''SoilMoist'', Chars 4),
     (''SoilTemps'', Chars 4), (''LeafWetness'', Chars 4), (''ExtraTemps'', Chars 2),
     (''ExtraHum'', Chars 2), (''ReedClosed'', U16), (''ReedOpened'', U16),
     (''unused'', U8)
   ]"

definition ArchiveAStruct_post_unpack :: "pydict \<Rightarrow> exn + pydict" where
  "ArchiveAStruct_post_unpack items =
     exn_bind (ArchiveStruct_post_unpack items)
       (run_steps [tuple_nB ''LeafWetness'' 4, tuple_nB_minus_90 ''ExtraTemps'' 2])"

definition ArchiveAStruct :: struct where
  "ArchiveAStruct = Struct ArchiveAStruct_FMT ArchiveAStruct_post_unpack"

definition ArchiveBStruct_FMT :: "(string \<times> fmt) list" where
  "ArchiveBStruct_FMT = [
     (''DateStamp'', U16), (''TimeStamp'', U16), (''TempOut'', U16),
     (''TempOutHi'', U16), (''TempOutLow'', U16), (''RainRate'', U16),
     (''RainRateHi'', U16), (''Barometer'', U16), (''SolarRad'', U16),
     (''WindSamps'', U16), (''TempIn'', U16), (''HumIn'', U8),
     (''HumOut'', U8), (''WindAvg'', U8), (''WindHi'', U8),
     (''WindHiDir'', U8), (''WindAvgDir'', U8), (''UV'', U8),
     (''ETHour'', U8), (''SolarRadHi'', U16), (''UVHi'', U8),
     (''ForecastRuleNo'', U8), (''LeafTemps'', Chars 2), (''LeafWetness'', Chars 2),
     (''SoilTemps'', Chars 4), (''RecType'', U8), (''ExtraHum'', Chars 2),
     (''ExtraTemps'', Chars 3), (''SoilMoist'', Chars 4)
   ]"

definition ArchiveBStruct_post_unpack :: "pydict \<Rightarrow> exn + pydict" where
  "ArchiveBStruct_post_unpack items =
     exn_bind (ArchiveStruct_post_unpack items)
       (run_steps [
          tuple_nB_minus_90 ''LeafTemps'' 2,
          tuple_nB ''LeafWetness'' 2,
          tuple_nB_minus_90 ''ExtraTemps'' 3
        ])"

definition ArchiveBStruct :: struct where
  "ArchiveBStruct = Struct ArchiveBStruct_FMT ArchiveBStruct_post_unpack"

subsection \<open>Download header and page container\<close>

definition DmpStruct :: struct where
  "DmpStruct = Struct [(''Pages'', U16), (''Offset'', U16), (''CRC'', U16)] Struct_post_unpack"

definition DmpPageStruct :: struct where
  "DmpPageStruct =
     Struct [(''Index'', U8), (''Records'', Chars 260), (''unused'', U8s 4), (''CRC'', U16)]
       Struct_post_unpack"

section \<open>Archive download\<close>

text \<open>\<^verbatim>\<open>struct.pack\<close> of unsigned 16-bit fields: a value outside 0..65535 raises
  \<^verbatim>\<open>struct.error\<close>. The time stamp buffer is packed in the machine's order
  (little-endian), the CRC with \<^verbatim>\<open>'>H'\<close> (big-endian).\<close>

definition pack_H :: "int \<Rightarrow> exn + byte list" where
  "pack_H n =
     (if 0 \<le> n \<and> n \<le> 65535 then Inr [word_of_int (n mod 256), word_of_int (n div 256)]
      else Inl StructError)"

definition pack_H_be :: "int \<Rightarrow> exn + byte list" where
  "pack_H_be n = exn_bind (pack_H n) (\<lambda>bs. Inr (rev bs))"

definition pack_2H :: "int \<times> int \<Rightarrow> exn + byte list" where
  "pack_2H tf = exn_bind (pack_H (fst tf)) (\<lambda>a. exn_bind (pack_H (snd tf)) (\<lambda>b. Inr (a @ b)))"

definition as_bytes :: "pyval \<Rightarrow> exn + byte list" where
  "as_bytes v = (case v of BytesV bs \<Rightarrow> Inr bs | _ \<Rightarrow> Inl TypeError)"

definition as_int :: "pyval \<Rightarrow> exn + int" where
  "as_int v = (case v of IntV n \<Rightarrow> Inr n | _ \<Rightarrow> Inl TypeError)"

text \<open>
  \<^verbatim>\<open>VantagePro._use_rev_b_archive\<close>. \<^verbatim>\<open>_ARCHIVE_REV_B\<close> is \<^verbatim>\<open>None\<close> on the class and
  is assigned on the instance, so it is a field of the session: \<open>None\<close> while
  unknown, then \<open>Some True\<close> for revision B and \<open>Some False\<close> for revision A.
\<close>

definition use_rev_b_archive :: "byte list \<Rightarrow> int \<Rightarrow> bool io" where
  "use_rev_b_archive records offset dev s =
     (case ARCHIVE_REV_B s of
        Some b \<Rightarrow> Some (Inr b, s)
      | None \<Rightarrow>
          (case exn_bind (Struct_unpack_from ArchiveBStruct records offset)
                  (\<lambda>data. getitem data ''RecType'') of
             Inl e \<Rightarrow> Some (Inl e, s)
           | Inr v \<Rightarrow>
               if v = IntV 0 then Some (Inr True, s\<lparr>ARCHIVE_REV_B := Some True\<rparr>)
               else Some (Inr False, s\<lparr>ARCHIVE_REV_B := Some False\<rparr>)))"

text \<open>Decoding one record slot of a page: the layout is the one
  \<^verbatim>\<open>_use_rev_b_archive\<close> answers.\<close>

definition read_slot :: "pydict \<Rightarrow> int \<Rightarrow> pydict io" where
  "read_slot page offset =
     io_bind (io_lift (exn_bind (getitem page ''Records'') as_bytes)) (\<lambda>records.
     io_bind (use_rev_b_archive records offset) (\<lambda>b.
       if b then io_lift (Struct_unpack_from ArchiveBStruct records offset)
       else io_lift (Struct_unpack_from ArchiveAStruct records offset)))"

text \<open>\<^verbatim>\<open>a['DateStamp'] != 0xffff and a['TimeStamp'] != 0xffff\<close>; the second key is
  read only when the first test holds.\<close>

definition keep_record :: "pydict \<Rightarrow> exn + bool" where
  "keep_record a =
     exn_bind (getitem a ''DateStamp'') (\<lambda>d.
       if d \<noteq> IntV 0xffff then exn_bind (getitem a ''TimeStamp'') (\<lambda>t. Inr (t \<noteq> IntV 0xffff))
       else Inr False)"

text \<open>The \<^verbatim>\<open>while offset < ArchiveAStruct.size * 5\<close> loop over the slots of a page.\<close>

function walk_records :: "pydict \<Rightarrow> int \<Rightarrow> pydict list \<Rightarrow> pydict list io" where
  "walk_records page offset records dev s =
     (if offset < int (struct_size ArchiveAStruct) * 5 then
        (case read_slot page offset dev s of
           None \<Rightarrow> None
         | Some (Inl e, s1) \<Rightarrow> Some (Inl e, s1)
         | Some (Inr a, s1) \<Rightarrow>
             (case keep_record a of
                Inl e \<Rightarrow> Some (Inl e, s1)
              | Inr keep \<Rightarrow>
                  walk_records page (offset + int (struct_size ArchiveAStruct))
                    (if keep then records @ [a] else records) dev s1))
      else Some (Inr records, s))"
  by pat_completeness auto
termination
  by (relation "measure (\<lambda>(page, offset, records, dev, s).
         nat (int (struct_size ArchiveAStruct) * 5 - offset))")
     (auto simp: struct_size_def calcsize_def ArchiveAStruct_def Struct_def ArchiveAStruct_FMT_def)

text \<open>What is done with a page once its CRC is verified and acknowledged: unpack the
  container, take the start offset from the header on the first page, and walk the
  slots.\<close>

definition page_body :: "int \<Rightarrow> pydict \<Rightarrow> byte list \<Rightarrow> pydict list \<Rightarrow> pydict list io" where
  "page_body i dmp raw records =
     io_bind (io_lift (Struct_unpack DmpPageStruct raw)) (\<lambda>page.
     io_bind (io_lift
        (if i = 0 then
           exn_bind (exn_bind (getitem dmp ''Offset'') as_int)
             (\<lambda>n. Inr (n * int (struct_size ArchiveAStruct)))
         else Inr 0)) (\<lambda>offset.
     walk_records page offset records))"

text \<open>The \<^verbatim>\<open>for i in range(dmp['Pages'])\<close> loop, by the number of pages left; \<open>i\<close> is
  the loop variable. A page whose CRC fails is answered with \<^verbatim>\<open>ESC\<close> and the bare
  \<^verbatim>\<open>return\<close> gives \<^verbatim>\<open>None\<close>.\<close>

fun read_pages :: "nat \<Rightarrow> int \<Rightarrow> pydict \<Rightarrow> pydict list \<Rightarrow> (pydict list option) io" where
  "read_pages 0 i dmp records dev s = Some (Inr (Some records), s)"
| "read_pages (Suc k) i dmp records dev s =
     (case port_read (struct_size DmpPageStruct) dev s of
        None \<Rightarrow> None
      | Some (Inl e, s1) \<Rightarrow> Some (Inl e, s1)
      | Some (Inr raw, s1) \<Rightarrow>
          (case VProCRC_verify raw of
             Inl e \<Rightarrow> Some (Inl e, s1)
           | Inr valid \<Rightarrow>
               if \<not> valid then Some (Inr None, port_write ESC s1)
               else
                 (case page_body i dmp raw records dev (port_write ACK s1) of
                    None \<Rightarrow> None
                  | Some (Inl e, s2) \<Rightarrow> Some (Inl e, s2)
                  | Some (Inr records', s2) \<Rightarrow> read_pages k (i + 1) dmp records' dev s2)))"

text \<open>Steps 3 and 4 of \<^verbatim>\<open>_dmpaft_cmd\<close>: the download header, then the pages.\<close>

definition read_preamble :: "pydict list \<Rightarrow> (pydict list option) io" where
  "read_preamble records dev s =
     (case port_read (struct_size DmpStruct) dev s of
        None \<Rightarrow> None
      | Some (Inl e, s1) \<Rightarrow> Some (Inl e, s1)
      | Some (Inr raw, s1) \<Rightarrow>
          (case VProCRC_verify raw of
             Inl e \<Rightarrow> Some (Inl e, s1)
           | Inr valid \<Rightarrow>
               if \<not> valid then Some (Inr None, port_write ESC s1)
               else
                 io_bind (io_lift (Struct_unpack DmpStruct raw)) (\<lambda>dmp.
                 io_bind (io_lift (exn_bind (getitem dmp ''Pages'') as_int)) (\<lambda>pages.
                   read_pages (nat pages) 0 dmp records))
                 dev (port_write ACK s1)))"

text \<open>\<^verbatim>\<open>VantagePro._dmpaft_cmd\<close>: steps 1 and 2, then the rest.\<close>

definition dmpaft_cmd :: "int \<times> int \<Rightarrow> (pydict list option) io" where
  "dmpaft_cmd time_fields =
     io_bind (io_lift (pack_2H time_fields)) (\<lambda>tbuf.
     io_bind (cmd ''DMPAFT'' [] False) (\<lambda>_.
     io_bind (io_lift (exn_bind (VProCRC_get tbuf) pack_H_be)) (\<lambda>crc.
     io_bind (io_write (Bytes (tbuf @ crc))) (\<lambda>_.
     io_bind (port_read (py_len ACK)) (\<lambda>ack.
       if Bytes ack \<noteq> ACK then io_ret None else read_preamble [])))))"

section \<open>Session: the newest archive record\<close>

text \<open>The retry loop of \<^verbatim>\<open>_get_new_archive_fields\<close>: up to three downloads, one second
  of sleep after each that gave \<^verbatim>\<open>None\<close>.\<close>

fun archive_attempts :: "nat \<Rightarrow> pydict list option \<Rightarrow> (pydict list option) io" where
  "archive_attempts 0 records dev s = Some (Inr records, s)"
| "archive_attempts (Suc k) records dev s =
     (case dmpaft_cmd (archive_time s) dev s of
        None \<Rightarrow> None
      | Some (Inl e, s1) \<Rightarrow> Some (Inl e, s1)
      | Some (Inr records', s1) \<Rightarrow>
          if records' \<noteq> None then Some (Inr records', s1)
          else archive_attempts k records' dev (time_sleep 1 s1))"

text \<open>\<^verbatim>\<open>(r['DateStamp'], r['TimeStamp'])\<close>, compared with the cursor as Python compares
  tuples of integers: by the first component, then by the second.\<close>

definition record_time :: "pydict \<Rightarrow> exn + int \<times> int" where
  "record_time r =
     exn_bind (exn_bind (getitem r ''DateStamp'') as_int) (\<lambda>d.
     exn_bind (exn_bind (getitem r ''TimeStamp'') as_int) (\<lambda>t. Inr (d, t)))"

fun newest_record :: "pydict list \<Rightarrow> pydict option \<Rightarrow> (pydict option) io" where
  "newest_record [] new_rec dev s = Some (Inr new_rec, s)"
| "newest_record (r # rs) new_rec dev s =
     (case record_time r of
        Inl e \<Rightarrow> Some (Inl e, s)
      | Inr new_time \<Rightarrow>
          if archive_time s < new_time
          then newest_record rs (Some r) dev (s\<lparr>archive_time := new_time\<rparr>)
          else newest_record rs new_rec dev s)"

definition get_new_archive_fields :: "(pydict option) io" where
  "get_new_archive_fields =
     io_bind (archive_attempts 3 (Some [])) (\<lambda>records.
       case records of
         None \<Rightarrow> io_raise (NoNewRecordsException ''Can not download any new record.'')
       | Some rs \<Rightarrow> newest_record rs None)"

section \<open>Concrete devices and sessions\<close>

text \<open>A fresh session: nothing read or written, the cursor at (0, 0), the archive
  revision unknown.\<close>

definition fresh :: session where
  "fresh = \<lparr>nreads = 0, trace = [], archive_time = (0, 0), ARCHIVE_REV_B = None\<rparr>"

text \<open>A console that wakes up and then answers every command with a NAK byte.\<close>

definition nak_dev :: device where
  "nak_dev k = (if k = 0 then Data [0x0A, 0x0D] else Data [0x15])"

text \<open>A console that wakes up and then stays silent.\<close>

definition mute_dev :: device where
  "mute_dev k = (if k = 0 then Data [0x0A, 0x0D] else NoReply)"

section \<open>The CRC engine\<close>

text \<open>The accumulator stays a 16-bit value, so the table lookup never leaves the table
  and \<^verbatim>\<open>VProCRC.get\<close> raises nothing.\<close>

lemma table_bound: "\<forall>x\<in>set CRC_TABLE. 0 \<le> x \<and> x < 65536"
  by (simp add: CRC_TABLE_def)

lemma len_table: "length CRC_TABLE = 256"
  by (simp add: CRC_TABLE_def)

lemma crc_index_range:
  assumes "0 \<le> crc" "crc < 65536"
  shows "0 \<le> drop_bit 8 crc XOR uint (b::byte) \<and> drop_bit 8 crc XOR uint b < 256"
proof -
  have d: "0 \<le> drop_bit 8 crc" "drop_bit 8 crc < 2 ^ 8"
    using assms by (simp_all add: drop_bit_eq_div)
  have u: "0 \<le> uint b" "uint b < 2 ^ 8"
    using uint_bounded [of b] by simp_all
  have "drop_bit 8 crc XOR uint b < 2 ^ 8"
    by (rule XOR_upper [OF d(1) d(2) u(2)])
  moreover have "0 \<le> drop_bit 8 crc XOR uint b"
    by (rule XOR_lower [OF d(1) u(1)])
  ultimately show ?thesis by simp
qed

lemma crc_round_ok:
  assumes "0 \<le> crc" "crc < 65536"
  shows "\<exists>c. crc_round crc b = Inr c \<and> 0 \<le> c \<and> c < 65536"
proof -
  let ?i = "drop_bit 8 crc XOR uint b"
  have i: "0 \<le> ?i" "?i < 256"
    using crc_index_range [OF assms] by simp_all
  let ?t = "CRC_TABLE ! nat ?i"
  have mem: "?t \<in> set CRC_TABLE"
    using i by (simp add: len_table)
  have t: "0 \<le> ?t" "?t < 2 ^ 16"
    using table_bound mem by auto
  have lo: "0 \<le> crc AND 255" "crc AND 255 \<le> 255"
    by (simp_all add: AND_upper2)
  have p: "0 \<le> push_bit 8 (crc AND 255)" "push_bit 8 (crc AND 255) < 2 ^ 16"
    using lo by (simp_all add: push_bit_eq_mult)
  have "?t XOR push_bit 8 (crc AND 255) < 2 ^ 16"
    by (rule XOR_upper [OF t(1) t(2) p(2)])
  moreover have "0 \<le> ?t XOR push_bit 8 (crc AND 255)"
    by (rule XOR_lower [OF t(1) p(1)])
  moreover have "crc_round crc b = Inr (?t XOR push_bit 8 (crc AND 255))"
    using i by (simp add: crc_round_def tuple_getitem_def len_table Let_def)
  ultimately show ?thesis by simp
qed

lemma crc_loop_ok:
  "0 \<le> crc \<Longrightarrow> crc < 65536 \<Longrightarrow> \<exists>c. crc_loop crc bs = Inr c \<and> 0 \<le> c \<and> c < 65536"
proof (induction bs arbitrary: crc)
  case Nil
  then show ?case by simp
next
  case (Cons b bs)
  from crc_round_ok [OF Cons.prems, of b] obtain c where
    c: "crc_round crc b = Inr c" "0 \<le> c" "c < 65536" by blast
  from Cons.IH [OF c(2) c(3)] c(1) show ?case by simp
qed

lemma VProCRC_get_ok: "\<exists>c. VProCRC_get data = Inr c \<and> 0 \<le> c \<and> c < 65536"
  unfolding VProCRC_get_def by (rule crc_loop_ok) simp_all

text \<open>
  Claim C9. For every byte sequence \<open>b\<close>, \<^verbatim>\<open>verify(b)\<close> returns (it raises nothing) and
  its value is true exactly when \<open>b\<close> is not empty and \<^verbatim>\<open>crc(b)\<close> is 0; in particular
  the empty sequence does not verify.
\<close>

theorem verify_iff:
  "VProCRC_verify b = Inr (b \<noteq> [] \<and> VProCRC_get b = Inr 0) \<and> VProCRC_verify [] = Inr False"
proof -
  obtain c where c: "VProCRC_get b = Inr c" using VProCRC_get_ok by blast
  then show ?thesis by (simp add: VProCRC_verify_def)
qed

theorem verify_iff_witness:
  "VProCRC_verify [0x01, 0x10, 0x21] = Inr True \<and> VProCRC_verify [0x01, 0x10, 0x20] = Inr False"
proof -
  have a: "VProCRC_get [0x01, 0x10, 0x21] = Inr 0" by code_simp
  have b: "VProCRC_get [0x01, 0x10, 0x20] = Inr 4129" by code_simp
  show ?thesis
    using verify_iff [of "[0x01, 0x10, 0x21]"] verify_iff [of "[0x01, 0x10, 0x20]"] a b by simp
qed

section \<open>Date and time stamps\<close>

lemma unpack_digit:
  fixes a k b :: int
  assumes "0 \<le> a" "a < k"
  shows "(a + k * b) div k = b" "(a + k * b) mod k = a"
  using assms by simp_all

text \<open>
  Claim C10. The watermark encoders and the archive date/time decoder are inverse to
  each other: for a date with 2000 \<open>\<le>\<close> year \<open>\<le>\<close> 2127, 1 \<open>\<le>\<close> month \<open>\<le>\<close> 12,
  1 \<open>\<le>\<close> day \<open>\<le>\<close> 31, 0 \<open>\<le>\<close> hour \<open>\<le>\<close> 23 and 0 \<open>\<le>\<close> minute \<open>\<le>\<close> 59, decoding the
  pair (\<^verbatim>\<open>calcDateStamp(d)\<close>, \<^verbatim>\<open>calcTimeStamp(d)\<close>) gives back year, month, day, hour
  and minute.
\<close>

theorem stamp_roundtrip:
  assumes "2000 \<le> year d" "year d \<le> 2127" "1 \<le> month d" "month d \<le> 12" "1 \<le> day d" "day d \<le> 31"
   "0 \<le> hour d" "hour d \<le> 23" "0 \<le> minute d" "minute d \<le> 59"
  shows "unpack_date_time (calcDateStamp d) (calcTimeStamp d) = (year d, month d, day d, hour d, minute d)"
proof -
  have m5: "(31::int) = mask 5" and m4: "(15::int) = mask 4" and m7: "(127::int) = mask 7"
    by (simp_all add: mask_eq_exp_minus_1)
  define y where "y = year d - 2000"
  define m where "m = month d"
  define a where "a = day d"
  define b where "b = m + 16 * y"
  define ds where "ds = calcDateStamp d"
  define ts where "ts = calcTimeStamp d"
  have bnd: "0 \<le> y" "y < 128" "0 \<le> m" "m < 16" "0 \<le> a" "a < 32"
    using assms by (simp_all add: y_def m_def a_def)
  have dsv: "ds = a + 32 * b"
    by (simp add: ds_def calcDateStamp_def y_def m_def a_def b_def)
  have tsv: "ts = minute d + 100 * hour d"
    by (simp add: ts_def calcTimeStamp_def)
  have q: "ds div 32 = b" and r1: "ds mod 32 = a"
    unfolding dsv using unpack_digit [OF bnd(5) bnd(6), of b] by simp_all
  have q2: "b div 16 = y" and r2': "b mod 16 = m"
    unfolding b_def using unpack_digit [OF bnd(3) bnd(4), of y] by simp_all
  have r2: "ds div 32 mod 16 = m" by (simp add: q r2')
  have "ds div 512 = ds div 32 div 16"
    by (simp add: div_mult2_eq [symmetric])
  also have "\<dots> = y" by (simp add: q q2)
  finally have r3: "ds div 512 mod 128 = y" using bnd by simp
  have t1: "ts div 100 = hour d" and t2: "ts mod 100 = minute d"
    unfolding tsv using unpack_digit [of "minute d" 100 "hour d"] assms by simp_all
  have "unpack_date_time ds ts = (y + 2000, m, a, hour d, minute d)"
    unfolding unpack_date_time_def Let_def m5 m4 m7
    by (simp add: take_bit_eq_mask [symmetric] take_bit_eq_mod drop_bit_eq_div r1 r2 r3 t1 t2 del: mask_eq_exp_minus_1)
  then show ?thesis by (simp add: ds_def ts_def y_def m_def a_def)
qed


theorem stamp_roundtrip_witness:
  "unpack_date_time
     (calcDateStamp \<lparr>year = 2023, month = 6, day = 15, hour = 6, minute = 1\<rparr>)
     (calcTimeStamp \<lparr>year = 2023, month = 6, day = 15, hour = 6, minute = 1\<rparr>)
   = (2023, 6, 15, 6, 1)"
  using stamp_roundtrip [of "\<lparr>year = 2023, month = 6, day = 15, hour = 6, minute = 1\<rparr>"]
  by simp

section \<open>Real-time snapshot\<close>

text \<open>
  Claim C7, at the input where the code leaves it: a LOOP frame whose StormStartDate
  word is 26519 (year bits 23, day bits 15, month bits 6). The field decodes to the
  string 2023-6-15: month and day are printed with \<^verbatim>\<open>%s\<close>, without the leading zero
  that the docstring's YYYY-MM-DD promises and that \<^verbatim>\<open>_unpack_time\<close> does print
  (601 gives 06:01).
\<close>

theorem storm_date_not_padded:
  "unpack_storm_date 26519 = ''2023-6-15''
   \<and> exn_bind (Struct_unpack LoopStruct (replicate 48 0 @ [0x97, 0x67] @ replicate 49 0))
        (\<lambda>items. getitem items ''StormStartDate'') = Inr (StrV ''2023-6-15'')
   \<and> unpack_time 601 = ''06:01''"
  by code_simp

section \<open>Handshake\<close>

lemma wakeup_loop_no_match:
  assumes "wakeup_loop awake i dev s = Some r"
  shows "(\<forall>n. \<exists>b. dev n = Data b \<and> Bytes b \<noteq> WAKE_ACK) \<longrightarrow> \<not> awake \<longrightarrow> i < 3 \<longrightarrow> False"
proof (rule wakeup_loop.raw_induct
    [where P = "\<lambda>awake i dev s r.
       (\<forall>n. \<exists>b. dev n = Data b \<and> Bytes b \<noteq> WAKE_ACK) \<longrightarrow> \<not> awake \<longrightarrow> i < 3 \<longrightarrow> False",
     OF _ assms])
  fix loop :: "bool \<Rightarrow> nat \<Rightarrow> device \<Rightarrow> session \<Rightarrow> (bool \<times> session) option"
  fix awake i dev s r
  assume IH: "\<And>awake i dev s r. loop awake i dev s = Some r \<Longrightarrow>
       (\<forall>n. \<exists>b. dev n = Data b \<and> Bytes b \<noteq> WAKE_ACK) \<longrightarrow> \<not> awake \<longrightarrow> i < 3 \<longrightarrow> False"
    and eq: "(if \<not> awake \<and> i < 3 then
        (case wait_for_read (py_len WAKE_ACK) 1200 dev (port_write (Bytes (encode [CHR 0x0A])) s) of
           (None, s') \<Rightarrow> loop awake (i + 1) dev s'
         | (Some ack, s') \<Rightarrow>
             if Bytes ack = WAKE_ACK then loop True i dev s'
             else loop awake i dev s')
      else Some (awake, s)) = Some r"
  show "(\<forall>n. \<exists>b. dev n = Data b \<and> Bytes b \<noteq> WAKE_ACK) \<longrightarrow> \<not> awake \<longrightarrow> i < 3 \<longrightarrow> False"
  proof (intro impI)
    assume dev: "\<forall>n. \<exists>b. dev n = Data b \<and> Bytes b \<noteq> WAKE_ACK" and na: "\<not> awake" and i: "i < 3"
    let ?s1 = "port_write (Bytes (encode [CHR 0x0A])) s"
    from dev obtain b where b: "dev (nreads ?s1) = Data b" "Bytes b \<noteq> WAKE_ACK" by blast
    obtain s' where w: "wait_for_read (py_len WAKE_ACK) 1200 dev ?s1 = (Some b, s')"
      using b(1) by (simp add: wait_for_read_def)
    from eq na i w b(2) have "loop awake i dev s' = Some r" by simp
    from IH [OF this] dev na i show False by blast
  qed
qed

text \<open>
  Claim C3, at the input where the code leaves it: a device that answers every read
  with two bytes other than the wake acknowledgement (here \<^verbatim>\<open>b"XX"\<close>). No read times
  out, so the counter never moves and \<^verbatim>\<open>_wakeup\<close> never returns: it neither stops
  after three attempts nor raises.
\<close>

theorem wakeup_never_returns: "wakeup (\<lambda>k. Data [0x58, 0x58]) s = None"
proof (cases "wakeup_loop False 0 (\<lambda>k. Data [0x58, 0x58]) s")
  case None
  then show ?thesis by (simp add: wakeup_def)
next
  case (Some r)
  have "\<forall>n. \<exists>b. (\<lambda>k. Data [0x58, 0x58]) n = Data b \<and> Bytes b \<noteq> WAKE_ACK"
    by (simp add: WAKE_ACK_def encode_def)
  with wakeup_loop_no_match [OF Some] show ?thesis by simp
qed


lemma cmd_rounds_timeout:
  assumes "k < n"
    and "\<forall>j<k. \<exists>b. dev (nreads s + j) = Data b \<and> Bytes b \<noteq> (if ok then OK else ACK)"
    and "dev (nreads s + k) = NoReply"
  shows "\<exists>s'. cmd_rounds n c ok dev s = Some (Inl (NoDeviceException ''Lost connection''), s')
      \<and> trace s' = trace s @ concat (replicate (k + 1)
            [Wrote (cmd_line c), ReadReq (py_len (if ok then OK else ACK)) (Some (if ok then 5000 else 1200))])"
  using assms
proof (induction n arbitrary: k s)
  case 0
  then show ?case by simp
next
  case (Suc n)
  let ?s1 = "port_write (cmd_line c) s"
  let ?s2 = "?s1\<lparr>nreads := nreads s + 1, trace := trace ?s1 @ [ReadReq (py_len (if ok then OK else ACK)) (Some (if ok then 5000 else 1200))]\<rparr>"
  show ?case
  proof (cases k)
    case 0
    with Suc.prems(3) have "dev (nreads s) = NoReply" by simp
    then show ?thesis using 0
      by (cases ok) (simp_all add: wait_for_read_def port_write_def Let_def)
  next
    case (Suc k')
    from Suc.prems(2) Suc obtain b where b: "dev (nreads s) = Data b" "Bytes b \<noteq> (if ok then OK else ACK)"
      by (metis add.right_neutral zero_less_Suc)
    have step: "cmd_rounds (Suc n) c ok dev s = cmd_rounds n c ok dev ?s2"
      using b by (cases ok) (simp_all add: wait_for_read_def port_write_def Let_def)
    have n2: "nreads ?s2 = nreads s + 1" by simp
    have p2: "\<forall>j<k'. \<exists>b. dev (nreads ?s2 + j) = Data b \<and> Bytes b \<noteq> (if ok then OK else ACK)"
    proof (intro allI impI)
      fix j assume "j < k'"
      then have "Suc j < k" using Suc by simp
      with Suc.prems(2) have "\<exists>b. dev (nreads s + Suc j) = Data b \<and> Bytes b \<noteq> (if ok then OK else ACK)"
        by blast
      then show "\<exists>b. dev (nreads ?s2 + j) = Data b \<and> Bytes b \<noteq> (if ok then OK else ACK)"
        by (simp add: n2 del: cmd_rounds.simps)
    qed
    have p3: "dev (nreads ?s2 + k') = NoReply"
      using Suc.prems(3) Suc by (simp add: n2)
    have "k' < n" using Suc.prems(1) Suc by simp
    from Suc.IH [OF this p2 p3] obtain s' where
      s': "cmd_rounds n c ok dev ?s2 = Some (Inl (NoDeviceException ''Lost connection''), s')"
          "trace s' = trace ?s2 @ concat (replicate (k' + 1)
            [Wrote (cmd_line c), ReadReq (py_len (if ok then OK else ACK)) (Some (if ok then 5000 else 1200))])"
      by blast
    show ?thesis
      unfolding step using s' Suc by (simp add: port_write_def del: cmd_rounds.simps)
  qed
qed

lemma cmd_rounds_no_match:
  assumes "\<forall>j<n. \<exists>b. dev (nreads s + j) = Data b \<and> Bytes b \<noteq> (if ok then OK else ACK)"
  shows "\<exists>s'. cmd_rounds n c ok dev s = Some (Inr (), s')
      \<and> trace s' = trace s @ concat (replicate n
            [Wrote (cmd_line c), ReadReq (py_len (if ok then OK else ACK)) (Some (if ok then 5000 else 1200))])"
  using assms
proof (induction n arbitrary: s)
  case 0
  then show ?case by simp
next
  case (Suc n)
  let ?s1 = "port_write (cmd_line c) s"
  let ?s2 = "?s1\<lparr>nreads := nreads s + 1, trace := trace ?s1 @ [ReadReq (py_len (if ok then OK else ACK)) (Some (if ok then 5000 else 1200))]\<rparr>"
  from Suc.prems obtain b where b: "dev (nreads s) = Data b" "Bytes b \<noteq> (if ok then OK else ACK)"
    by (metis add.right_neutral zero_less_Suc)
  have step: "cmd_rounds (Suc n) c ok dev s = cmd_rounds n c ok dev ?s2"
    using b by (cases ok) (simp_all add: wait_for_read_def port_write_def Let_def)
  have n2: "nreads ?s2 = nreads s + 1" by simp
  have p2: "\<forall>j<n. \<exists>b. dev (nreads ?s2 + j) = Data b \<and> Bytes b \<noteq> (if ok then OK else ACK)"
  proof (intro allI impI)
    fix j assume "j < n"
    then have "Suc j < Suc n" by simp
    with Suc.prems have "\<exists>b. dev (nreads s + Suc j) = Data b \<and> Bytes b \<noteq> (if ok then OK else ACK)"
      by blast
    then show "\<exists>b. dev (nreads ?s2 + j) = Data b \<and> Bytes b \<noteq> (if ok then OK else ACK)"
      by (simp add: n2 del: cmd_rounds.simps)
  qed
  from Suc.IH [OF p2] obtain s' where
    s': "cmd_rounds n c ok dev ?s2 = Some (Inr (), s')"
        "trace s' = trace ?s2 @ concat (replicate n
          [Wrote (cmd_line c), ReadReq (py_len (if ok then OK else ACK)) (Some (if ok then 5000 else 1200))])"
    by blast
  show ?case unfolding step using s' by (simp add: port_write_def del: cmd_rounds.simps)
qed

lemma cmd_rounds_match:
  assumes "dev (nreads s) = Data b" "Bytes b = (if ok then OK else ACK)"
  shows "\<exists>s'. cmd_rounds (Suc n) c ok dev s = Some (Inr (), s')
      \<and> trace s' = trace s @ 
            [Wrote (cmd_line c), ReadReq (py_len (if ok then OK else ACK)) (Some (if ok then 5000 else 1200))]"
  using assms by (cases ok) (simp_all add: wait_for_read_def port_write_def Let_def)

lemma cmd_after_wakeup:
  "wakeup dev s = Some (Inr (), s0) \<Longrightarrow> cmd c args ok dev s = cmd_rounds 3 (cmd_text c args) ok dev s0"
  by (simp add: cmd_def io_bind_def)

text \<open>
  Claim C4. In \<^verbatim>\<open>_cmd\<close>, once the console is awake: a timeout of the acknowledgement
  read (1.2 s for the short acknowledgement, 5 s for the literal OK) raises
  device-unreachable at once, after \<open>k + 1\<close> sends when the \<open>k\<close> replies before it did
  not match; three replies that do not match make three sends and then the call
  returns normally, with the same value that a matching reply gives.
\<close>

theorem cmd_handshake:
  assumes "wakeup dev s = Some (Inr (), s0)"
  shows
   "(\<forall>k<3. (\<forall>j<k. \<exists>b. dev (nreads s0 + j) = Data b \<and> Bytes b \<noteq> (if ok then OK else ACK))
            \<and> dev (nreads s0 + k) = NoReply \<longrightarrow>
       (\<exists>s'. cmd c args ok dev s = Some (Inl (NoDeviceException ''Lost connection''), s') \<and>
             trace s' = trace s0 @ concat (replicate (k + 1)
               [Wrote (cmd_line (cmd_text c args)),
                ReadReq (py_len (if ok then OK else ACK)) (Some (if ok then 5000 else 1200))])))
    \<and> ((\<forall>j<3. \<exists>b. dev (nreads s0 + j) = Data b \<and> Bytes b \<noteq> (if ok then OK else ACK)) \<longrightarrow>
       (\<exists>s'. cmd c args ok dev s = Some (Inr (), s') \<and>
             trace s' = trace s0 @ concat (replicate 3
               [Wrote (cmd_line (cmd_text c args)),
                ReadReq (py_len (if ok then OK else ACK)) (Some (if ok then 5000 else 1200))])))
    \<and> ((\<exists>b. dev (nreads s0) = Data b \<and> Bytes b = (if ok then OK else ACK)) \<longrightarrow>
       (\<exists>s'. cmd c args ok dev s = Some (Inr (), s') \<and>
             trace s' = trace s0 @
               [Wrote (cmd_line (cmd_text c args)),
                ReadReq (py_len (if ok then OK else ACK)) (Some (if ok then 5000 else 1200))]))"
proof (intro conjI allI impI)
  fix k assume "k < 3"
    and "(\<forall>j<k. \<exists>b. dev (nreads s0 + j) = Data b \<and> Bytes b \<noteq> (if ok then OK else ACK))
            \<and> dev (nreads s0 + k) = NoReply"
  then show "\<exists>s'. cmd c args ok dev s = Some (Inl (NoDeviceException ''Lost connection''), s') \<and>
             trace s' = trace s0 @ concat (replicate (k + 1)
               [Wrote (cmd_line (cmd_text c args)),
                ReadReq (py_len (if ok then OK else ACK)) (Some (if ok then 5000 else 1200))])"
    using cmd_rounds_timeout [of k 3 dev s0 ok "cmd_text c args"] cmd_after_wakeup [OF assms]
    by simp
next
  assume "\<forall>j<3. \<exists>b. dev (nreads s0 + j) = Data b \<and> Bytes b \<noteq> (if ok then OK else ACK)"
  then show "\<exists>s'. cmd c args ok dev s = Some (Inr (), s') \<and>
             trace s' = trace s0 @ concat (replicate 3
               [Wrote (cmd_line (cmd_text c args)),
                ReadReq (py_len (if ok then OK else ACK)) (Some (if ok then 5000 else 1200))])"
    using cmd_rounds_no_match [of 3 dev s0 ok "cmd_text c args"] cmd_after_wakeup [OF assms]
    by simp
next
  assume "\<exists>b. dev (nreads s0) = Data b \<and> Bytes b = (if ok then OK else ACK)"
  then obtain b where "dev (nreads s0) = Data b" "Bytes b = (if ok then OK else ACK)" by blast
  with cmd_rounds_match [of dev s0 b ok 2 "cmd_text c args"] cmd_after_wakeup [OF assms, of c args ok]
  show "\<exists>s'. cmd c args ok dev s = Some (Inr (), s') \<and>
             trace s' = trace s0 @
               [Wrote (cmd_line (cmd_text c args)),
                ReadReq (py_len (if ok then OK else ACK)) (Some (if ok then 5000 else 1200))]"
    by (simp add: numeral_3_eq_3)
qed


theorem cmd_handshake_witness:
  "wakeup nak_dev fresh
     = Some (Inr (), \<lparr>nreads = 1, trace = [Wrote (Bytes [0x0A]), ReadReq 2 (Some 1200)],
                      archive_time = (0, 0), ARCHIVE_REV_B = None\<rparr>)
   \<and> (\<exists>s'. cmd ''DMPAFT'' [] False nak_dev fresh = Some (Inr (), s') \<and>
         trace s' = [Wrote (Bytes [0x0A]), ReadReq 2 (Some 1200)] @ concat (replicate 3
           [Wrote (cmd_line ''DMPAFT''), ReadReq 1 (Some 1200)]))"
proof -
  let ?s0 = "\<lparr>nreads = 1, trace = [Wrote (Bytes [0x0A]), ReadReq 2 (Some 1200)],
               archive_time = (0, 0), ARCHIVE_REV_B = None\<rparr>"
  have w: "wakeup nak_dev fresh = Some (Inr (), ?s0)"
    by code_simp
  have m: "\<forall>j<3. \<exists>b. nak_dev (nreads ?s0 + j) = Data b \<and> Bytes b \<noteq> (if False then OK else ACK)"
    by (simp add: nak_dev_def ACK_def encode_def)
  from cmd_handshake [OF w, of False "''DMPAFT''" "[]"] m
  have "\<exists>s'. cmd ''DMPAFT'' [] False nak_dev fresh = Some (Inr (), s') \<and>
         trace s' = trace ?s0 @ concat (replicate 3
           [Wrote (cmd_line (cmd_text ''DMPAFT'' [])),
            ReadReq (py_len (if False then OK else ACK)) (Some (if False then 5000 else 1200))])"
    by blast
  then show ?thesis using w by (simp add: cmd_text_def ACK_def encode_def)
qed

end
